theory Spec2Isabelle
  imports Main "HOL-Library.Sublist" "HOL-Library.Word"
begin

section \<open>create-k8s-app: the bootstrap script (createK8sApp.js)\<close>

text \<open>
  A JavaScript string is the list of its UTF-16 code units; \<open>undefined\<close> and \<open>null\<close> are
  \<open>None\<close>. \<open>chalk\<close> only adds colour escape codes to a string and is modelled as the
  identity. Console output is collected as a list of lines, oldest first.
\<close>

subsection \<open>Strings\<close>

type_synonym code_unit = "16 word"
type_synonym jsstring = "code_unit list"

text \<open>The code unit of a character below U+0100, and the string of such characters.\<close>

abbreviation unit :: "char \<Rightarrow> code_unit" where
  "unit c \<equiv> of_char c"

abbreviation js :: "string \<Rightarrow> jsstring" where
  "js s \<equiv> map unit s"

subsection \<open>Errors and promises\<close>

datatype js_error =
    TypeError                \<comment> \<open>raised by the language or by Node on a bad operand\<close>
  | Failure jsstring           \<comment> \<open>an \<open>Error\<close> of a collaborator, with its message\<close>

datatype reason =
    CommandFailed jsstring     \<comment> \<open>the object \<open>{ command }\<close> that \<open>install\<close> rejects with\<close>
  | Unexpected js_error

text \<open>
  A promise as the program observes it: resolved, rejected, or never settled because an
  uncaught error ended the process first.
\<close>

datatype 'a promise = Resolved 'a | Rejected reason | Killed js_error

subsection \<open>Strings and arrays of the language\<close>

text \<open>\<open>Array.prototype.join\<close>.\<close>

fun join :: "jsstring \<Rightarrow> jsstring list \<Rightarrow> jsstring" where
  "join sep [] = []"
| "join sep [x] = x"
| "join sep (x # y # ys) = x @ sep @ join sep (y # ys)"

text \<open>\<open>String.prototype.split\<close> with a one-character separator.\<close>

fun split_at :: "code_unit \<Rightarrow> jsstring \<Rightarrow> jsstring list" where
  "split_at c [] = [[]]"
| "split_at c (x # xs) =
     (if x = c then [] # split_at c xs
      else (case split_at c xs of [] \<Rightarrow> [[x]] | s # ss \<Rightarrow> (x # s) # ss))"

text \<open>A value in a condition: \<open>undefined\<close>, \<open>null\<close> and the empty string are falsy.\<close>

fun truthy :: "jsstring option \<Rightarrow> bool" where
  "truthy None = False"
| "truthy (Some s) = (s \<noteq> [])"

subsection \<open>Regular expressions\<close>

text \<open>
  The regular expressions of the script, with the backtracking order of the language:
  a matcher returns every way to match at a position, the preferred one first.
  A state is the captures so far, the position in the input and the rest of the input.
\<close>

datatype atom =
    Chr code_unit        \<comment> \<open>a literal character\<close>
  | Dot             \<comment> \<open>\<open>.\<close>: any character but a line terminator\<close>
  | Digit           \<comment> \<open>\<open>\d\<close>\<close>
  | NotChr code_unit     \<comment> \<open>\<open>[^c]\<close>\<close>

datatype regex =
    Eps
  | Atom atom
  | Bol                   \<comment> \<open>\<open>^\<close>, no multiline flag\<close>
  | Eol                   \<comment> \<open>\<open>$\<close>, no multiline flag\<close>
  | Seq regex regex
  | Alt regex regex
  | Star atom             \<comment> \<open>\<open>a*\<close>\<close>
  | Plus atom             \<comment> \<open>\<open>a+\<close>\<close>
  | PlusLazy atom         \<comment> \<open>\<open>a+?\<close>\<close>
  | Opt regex             \<comment> \<open>\<open>(?:r)?\<close>\<close>
  | Group nat regex       \<comment> \<open>the capturing group with this number\<close>

text \<open>The line terminators of the language: LF, CR, U+2028 and U+2029.\<close>

definition line_terminator :: "code_unit \<Rightarrow> bool" where
  "line_terminator c \<longleftrightarrow> c = 0x000A \<or> c = 0x000D \<or> c = 0x2028 \<or> c = 0x2029"

definition is_digit :: "code_unit \<Rightarrow> bool" where
  "is_digit c \<longleftrightarrow> c \<in> set (js ''0123456789'')"

fun atom_ok :: "atom \<Rightarrow> code_unit \<Rightarrow> bool" where
  "atom_ok (Chr c) x = (x = c)"
| "atom_ok Dot x = (\<not> line_terminator x)"
| "atom_ok Digit x = is_digit x"
| "atom_ok (NotChr c) x = (x \<noteq> c)"

type_synonym captures = "nat \<Rightarrow> jsstring option"
type_synonym mstate = "captures \<times> nat \<times> jsstring"

text \<open>The states after \<open>k\<close> characters, for each \<open>k\<close> of the list in turn.\<close>

definition advance :: "mstate \<Rightarrow> nat list \<Rightarrow> mstate list" where
  "advance st ks = map (\<lambda>k. (fst st, fst (snd st) + k, drop k (snd (snd st)))) ks"

text \<open>How many characters a repeated atom can take at most.\<close>

definition run_length :: "atom \<Rightarrow> jsstring \<Rightarrow> nat" where
  "run_length a r = length (takeWhile (atom_ok a) r)"

fun rmatch :: "regex \<Rightarrow> mstate \<Rightarrow> mstate list" where
  "rmatch Eps st = [st]"
| "rmatch (Atom a) (c, p, r) =
     (case r of [] \<Rightarrow> [] | x # xs \<Rightarrow> if atom_ok a x then [(c, Suc p, xs)] else [])"
| "rmatch Bol (c, p, r) = (if p = 0 then [(c, p, r)] else [])"
| "rmatch Eol (c, p, r) = (if r = [] then [(c, p, r)] else [])"
| "rmatch (Seq a b) st = concat (map (rmatch b) (rmatch a st))"
| "rmatch (Alt a b) st = rmatch a st @ rmatch b st"
| "rmatch (Star a) (c, p, r) = advance (c, p, r) (rev [0..<Suc (run_length a r)])"
| "rmatch (Plus a) (c, p, r) = advance (c, p, r) (rev [1..<Suc (run_length a r)])"
| "rmatch (PlusLazy a) (c, p, r) = advance (c, p, r) [1..<Suc (run_length a r)]"
| "rmatch (Opt a) (c, p, r) =
     filter (\<lambda>st. fst (snd st) \<noteq> p) (rmatch a (c, p, r)) @ [(c, p, r)]"
| "rmatch (Group k a) (c, p, r) =
     map (\<lambda>st. ((fst st)(k \<mapsto> take (fst (snd st) - p) r), snd st)) (rmatch a (c, p, r))"

text \<open>
  An optional part that matched the empty string is given up (the language rejects an
  empty iteration of a quantifier), which leaves its captures undefined.
\<close>

text \<open>\<open>String.prototype.match\<close> without the global flag: the leftmost match, or \<open>null\<close>.\<close>

fun exec_from :: "regex \<Rightarrow> nat \<Rightarrow> jsstring \<Rightarrow> captures option" where
  "exec_from re p [] = (case rmatch re (Map.empty, p, []) of [] \<Rightarrow> None | st # _ \<Rightarrow> Some (fst st))"
| "exec_from re p (x # xs) =
     (case rmatch re (Map.empty, p, x # xs) of
        [] \<Rightarrow> exec_from re (Suc p) xs
      | st # _ \<Rightarrow> Some (fst st))"

definition re_match :: "regex \<Rightarrow> jsstring \<Rightarrow> captures option" where
  "re_match re s = exec_from re 0 s"

definition re_test :: "regex \<Rightarrow> jsstring \<Rightarrow> bool" where
  "re_test re s \<longleftrightarrow> re_match re s \<noteq> None"

definition lit :: "jsstring \<Rightarrow> regex" where
  "lit s = foldr (\<lambda>c r. Seq (Atom (Chr c)) r) s Eps"

definition seq :: "regex list \<Rightarrow> regex" where
  "seq rs = foldr Seq rs Eps"

text \<open>\<open>/^file:/\<close>\<close>
definition file_re :: regex where
  "file_re = seq [Bol, lit (js ''file:'')]"

text \<open>\<open>/^file:(.*)?$/\<close>\<close>
definition file_path_re :: regex where
  "file_path_re = seq [Bol, lit (js ''file:''), Opt (Group 1 (Star Dot)), Eol]"

text \<open>\<open>/^.+\.(tgz|tar\.gz)$/\<close>\<close>
definition tarball_re :: regex where
  "tarball_re = seq [Bol, Plus Dot, lit (js ''.''), Group 1 (Alt (lit (js ''tgz'')) (lit (js ''tar.gz''))), Eol]"

text \<open>\<open>/^http/\<close>\<close>
definition http_re :: regex where
  "http_re = seq [Bol, lit (js ''http'')]"

text \<open>\<open>/^.+\/(.+?)(?:-\d+.+)?\.(tgz|tar\.gz)$/\<close>\<close>
definition stem_re :: regex where
  "stem_re = seq [Bol, Plus Dot, lit (js ''/''), Group 1 (PlusLazy Dot),
                  Opt (seq [lit (js ''-''), Plus Digit, Plus Dot]),
                  lit (js ''.''), Group 2 (Alt (lit (js ''tgz'')) (lit (js ''tar.gz''))), Eol]"

text \<open>\<open>/([^/]+)\.git(#.*)?$/\<close>\<close>
definition git_re :: regex where
  "git_re = seq [Group 1 (Plus (NotChr (unit CHR ''/''))), lit (js ''.git''),
                 Opt (Group 2 (seq [lit (js ''#''), Star Dot])), Eol]"

text \<open>\<open>/.+@/\<close>\<close>
definition at_re :: regex where
  "at_re = seq [Plus Dot, lit (js ''@'')]"

subsection \<open>Node's \<open>path.resolve\<close> (POSIX)\<close>

text \<open>
  A model of the built-in: the arguments are taken from the right until one is absolute,
  the process's current directory is consulted only when none is; empty segments and
  \<open>.\<close> are dropped and \<open>..\<close> removes the segment before it.
\<close>

fun absolute_prefix :: "jsstring list \<Rightarrow> jsstring \<Rightarrow> jsstring \<times> bool" where
  "absolute_prefix [] acc = (acc, False)"
| "absolute_prefix (p # ps) acc =
     (if p = [] then absolute_prefix ps acc
      else if hd p = unit CHR ''/'' then (p @ js ''/'' @ acc, True)
      else absolute_prefix ps (p @ js ''/'' @ acc))"

fun normalize_segments :: "bool \<Rightarrow> jsstring list \<Rightarrow> jsstring list \<Rightarrow> jsstring list" where
  "normalize_segments allowAboveRoot acc [] = rev acc"
| "normalize_segments allowAboveRoot acc (s # ss) =
     (if s = [] \<or> s = js ''.'' then normalize_segments allowAboveRoot acc ss
      else if s = js ''..'' then
        (case acc of
           [] \<Rightarrow> normalize_segments allowAboveRoot (if allowAboveRoot then [js ''..''] else []) ss
         | a # as \<Rightarrow>
             if a = js ''..'' then normalize_segments allowAboveRoot ((js ''..'') # acc) ss
             else normalize_segments allowAboveRoot as ss)
      else normalize_segments allowAboveRoot (s # acc) ss)"

definition path_resolve :: "jsstring \<Rightarrow> jsstring list \<Rightarrow> jsstring" where
  "path_resolve process_cwd args =
     (let (resolvedPath, resolvedAbsolute) = absolute_prefix (rev args @ [process_cwd]) [];
          normalized = join (js ''/'') (normalize_segments (\<not> resolvedAbsolute) []
                                     (split_at (unit CHR ''/'') resolvedPath))
      in if resolvedAbsolute then unit CHR ''/'' # normalized
         else if normalized \<noteq> [] then normalized else js ''.'')"

subsection \<open>The \<open>semver\<close> package: \<open>semver.valid\<close>\<close>

text \<open>
  A model of the package's strict parser: an optional \<open>v\<close>, three numeric identifiers
  without leading zeros (each at most \<open>Number.MAX_SAFE_INTEGER\<close>), an optional
  prerelease after \<open>-\<close> and optional build metadata after \<open>+\<close>, at most 256 characters.
  The result is the version the package formats from the parts: the \<open>v\<close> and the build
  metadata are not part of it.
\<close>

definition is_idchar :: "code_unit \<Rightarrow> bool" where
  "is_idchar c \<longleftrightarrow> is_digit c \<or> c = unit CHR ''-''
      \<or> c \<in> set (js ''abcdefghijklmnopqrstuvwxyzABCDEFGHIJKLMNOPQRSTUVWXYZ'')"

definition digit_value :: "code_unit \<Rightarrow> int" where
  "digit_value c = uint c - 48"

definition number_of :: "jsstring \<Rightarrow> int" where
  "number_of s = foldl (\<lambda>n c. 10 * n + digit_value c) 0 s"

definition numeric_identifier :: "jsstring \<Rightarrow> bool" where
  "numeric_identifier s \<longleftrightarrow>
     s = js ''0'' \<or> (s \<noteq> [] \<and> hd s \<noteq> unit CHR ''0'' \<and> list_all is_digit s)"

definition prerelease_identifier :: "jsstring \<Rightarrow> bool" where
  "prerelease_identifier s \<longleftrightarrow>
     numeric_identifier s \<or> (list_all is_idchar s \<and> \<not> list_all is_digit s)"

definition build_identifier :: "jsstring \<Rightarrow> bool" where
  "build_identifier s \<longleftrightarrow> s \<noteq> [] \<and> list_all is_idchar s"

definition MAX_SAFE_INTEGER :: int where
  "MAX_SAFE_INTEGER = 9007199254740991"

definition semver_valid :: "jsstring \<Rightarrow> jsstring option" where
  "semver_valid version =
     (if length version > 256 then None
      else
        let s = (case version of c # cs \<Rightarrow> if c = unit CHR ''v'' then cs else version | [] \<Rightarrow> []);
            main = takeWhile (\<lambda>c. c \<noteq> unit CHR ''-'' \<and> c \<noteq> unit CHR ''+'') s;
            rest = dropWhile (\<lambda>c. c \<noteq> unit CHR ''-'' \<and> c \<noteq> unit CHR ''+'') s;
            pre = (case rest of c # cs \<Rightarrow>
                     if c = unit CHR ''-'' then Some (takeWhile (\<lambda>c. c \<noteq> unit CHR ''+'') cs) else None
                   | [] \<Rightarrow> None);
            build = (case pre of
                       None \<Rightarrow> rest
                     | Some _ \<Rightarrow> dropWhile (\<lambda>c. c \<noteq> unit CHR ''+'') (tl rest));
            numbers = split_at (unit CHR ''.'') main
        in if length numbers = 3
              \<and> list_all (\<lambda>n. numeric_identifier n \<and> number_of n \<le> MAX_SAFE_INTEGER) numbers
              \<and> (case pre of None \<Rightarrow> True
                  | Some p \<Rightarrow> list_all prerelease_identifier (split_at (unit CHR ''.'') p))
              \<and> (case build of [] \<Rightarrow> True
                  | _ # b \<Rightarrow> list_all build_identifier (split_at (unit CHR ''.'') b))
           then Some (main @ (case pre of None \<Rightarrow> [] | Some p \<Rightarrow> unit CHR ''-'' # p))
           else None)"

subsection \<open>\<open>getInstallPackage\<close>\<close>

text \<open>
  \<open>valid\<close> stands for \<open>semver.valid\<close> on a string (on \<open>undefined\<close> it gives \<open>null\<close>),
  \<open>process_cwd\<close> for the process's current directory when the function is called.
  \<open>Inl\<close> is an exception thrown by the function: indexing the \<open>null\<close> of a failed match,
  or \<open>path.resolve\<close> refusing an \<open>undefined\<close> argument.
\<close>

text \<open>The string of a value known to be truthy.\<close>

fun string_of :: "jsstring option \<Rightarrow> jsstring" where
  "string_of (Some s) = s"
| "string_of None = []"

definition getInstallPackage ::
  "(jsstring \<Rightarrow> jsstring option) \<Rightarrow> jsstring \<Rightarrow> jsstring option \<Rightarrow> jsstring \<Rightarrow> js_error + jsstring" where
  "getInstallPackage valid process_cwd version originalDirectory =
     (let packageToInstall = js ''k8s-scripts'';
          validSemver = (case version of None \<Rightarrow> None | Some v \<Rightarrow> valid v)
      in if truthy validSemver then Inr (packageToInstall @ js ''@'' @ string_of validSemver)
         else if truthy version then
           (let v = string_of version
            in if hd v = unit CHR ''@'' \<and> unit CHR ''/'' \<notin> set v then Inr (packageToInstall @ v)
               else if re_test file_re v then
                 (case re_match file_path_re v of
                    None \<Rightarrow> Inl TypeError
                  | Some m \<Rightarrow>
                      (case m 1 of
                         None \<Rightarrow> Inl TypeError
                       | Some p \<Rightarrow>
                           Inr ((js ''file:'') @ path_resolve process_cwd [originalDirectory, p])))
               else Inr v)
         else Inr packageToInstall)"

subsection \<open>\<open>getPackageName\<close>\<close>

text \<open>
  The collaborators of the name extraction.
  \<^item> \<open>tmp.dir\<close> gives an error message or the temporary directory.
  \<^item> The archive is read (\<open>fs.createReadStream\<close>) or downloaded (\<open>hyperquest\<close>) and piped
    into \<open>tar-pack\<close>'s \<open>unpack\<close>. \<open>extractStream\<close> settles its promise only from the
    callback of \<open>unpack\<close>: without an error, or with one (a corrupt archive). An error of
    the source stream itself (a missing file, a failed connection) has no listener and is
    not passed on by \<open>pipe\<close>: it is thrown as an uncaught exception, which ends the process
    with the promise still pending.
  \<^item> \<open>require\<close> of the manifest in a directory throws with a message or gives the value
    of its \<open>name\<close> field (\<open>None\<close> when the manifest has none).
\<close>

datatype source = Http jsstring | File jsstring

datatype unpacked =
    Unpacked                 \<comment> \<open>the callback of \<open>unpack\<close> is called without an error\<close>
  | Unpack_error jsstring    \<comment> \<open>the callback of \<open>unpack\<close> is called with an error\<close>
  | Stream_error jsstring    \<comment> \<open>the source stream emits \<open>error\<close>\<close>

record collaborators =
  tmp_dir :: "jsstring + jsstring"
  unpack :: "source \<Rightarrow> jsstring \<Rightarrow> unpacked"
  manifest_name :: "jsstring \<Rightarrow> jsstring + jsstring option"

text \<open>
  The callback of \<open>.catch\<close> in the archive branch. It logs the message of the error, then
  indexes the match of the file name: when there is no match the callback throws, and
  the promise of the chain is rejected.
\<close>

definition assume_name :: "jsstring \<Rightarrow> jsstring \<Rightarrow> jsstring list \<times> jsstring option promise" where
  "assume_name installPackage message =
     (let line = js ''Could not extract the package name from the archive: '' @ message
      in case re_match stem_re installPackage of
           None \<Rightarrow> ([line], Rejected (Unexpected TypeError))
         | Some m \<Rightarrow>
             ([line, js ''Based on the filename, assuming it is '' @ [0x22] @ string_of (m 1) @ [0x22]],
              Resolved (m 1)))"

text \<open>
  \<open>Inl\<close> is an exception thrown by the call itself, before any promise is returned;
  otherwise the lines logged and the promise. The cleanup of the temporary directory
  swallows its own errors and has no part in the result.
\<close>

definition getPackageName ::
  "collaborators \<Rightarrow> jsstring \<Rightarrow> js_error + (jsstring list \<times> jsstring option promise)" where
  "getPackageName env installPackage =
     (if re_test tarball_re installPackage then
        (case tmp_dir env of
           Inl err \<Rightarrow> Inr (assume_name installPackage err)
         | Inr tmpdir \<Rightarrow>
             (let stream = (if re_test http_re installPackage then Http installPackage
                            else File installPackage)
              in (case unpack env stream tmpdir of
                    Stream_error err \<Rightarrow> Inr ([], Killed (Failure err))
                  | Unpack_error err \<Rightarrow> Inr (assume_name installPackage err)
                  | Unpacked \<Rightarrow>
                      (case manifest_name env tmpdir of
                         Inl err \<Rightarrow> Inr (assume_name installPackage err)
                       | Inr packageName \<Rightarrow> Inr ([], Resolved packageName)))))
      else if prefix (js ''git+'') installPackage then
        (case re_match git_re installPackage of
           None \<Rightarrow> Inl TypeError
         | Some m \<Rightarrow> Inr ([], Resolved (m 1)))
      else if re_test at_re installPackage then
        Inr ([], Resolved (Some (take 1 installPackage
                                  @ takeWhile (\<lambda>c. c \<noteq> unit CHR ''@'') (drop 1 installPackage))))
      else if re_test file_re installPackage then
        (case re_match file_path_re installPackage of
           None \<Rightarrow> Inl TypeError
         | Some m \<Rightarrow>
             (case m 1 of
                None \<Rightarrow> Inl TypeError
              | Some installPackagePath \<Rightarrow>
                  (case manifest_name env installPackagePath of
                     Inl err \<Rightarrow> Inl (Failure err)
                   | Inr name \<Rightarrow> Inr ([], Resolved name))))
      else Inr ([], Resolved (Some installPackage)))"

subsection \<open>\<open>install\<close>\<close>

text \<open>
  \<open>code\<close> is the exit code that the \<open>close\<close> event of the spawned process reports
  (\<open>None\<close> for \<open>null\<close>, a process ended by a signal). The arguments spawned are returned
  with the promise.
\<close>

definition install_args :: "jsstring list \<Rightarrow> bool \<Rightarrow> jsstring list" where
  "install_args dependencies verbose =
     ([js ''install'', js ''--save'', js ''--save-exact'', js ''--loglevel'', js ''error''] @ dependencies)
     @ (if verbose then [js ''--verbose''] else [])"

definition install :: "jsstring list \<Rightarrow> bool \<Rightarrow> int option \<Rightarrow> jsstring list \<times> unit promise" where
  "install dependencies verbose code =
     (let command = js ''npm'';
          args = install_args dependencies verbose
      in (command # args,
          if code \<noteq> Some 0 then Rejected (CommandFailed (command @ js '' '' @ join (js '' '') args))
          else Resolved ()))"

subsection \<open>The project root on disk\<close>

text \<open>
  The project root is the list of its entries, each a name with its content (a file's
  bytes or a subtree, left abstract), or \<open>None\<close> when the directory does not exist;
  with it, the current directory of the process. \<open>fs.removeSync\<close> of \<open>root/file\<close> removes
  the entry of that name, whatever it is, and does nothing when there is none.
\<close>

record 'c disk =
  root_dir :: "(jsstring \<times> 'c) list option"
  cwd :: jsstring

definition readdirSync :: "'c disk \<Rightarrow> js_error + jsstring list" where
  "readdirSync d = (case root_dir d of
                      None \<Rightarrow> Inl (Failure (js ''ENOENT''))
                    | Some es \<Rightarrow> Inr (map fst es))"

definition removeSync :: "jsstring \<Rightarrow> 'c disk \<Rightarrow> 'c disk" where
  "removeSync file d = d\<lparr>root_dir := map_option (filter (\<lambda>e. fst e \<noteq> file)) (root_dir d)\<rparr>"

definition removeRoot :: "'c disk \<Rightarrow> 'c disk" where
  "removeRoot d = d\<lparr>root_dir := None\<rparr>"

definition chdir :: "jsstring \<Rightarrow> 'c disk \<Rightarrow> 'c disk" where
  "chdir dir d = d\<lparr>cwd := dir\<rparr>"

subsection \<open>\<open>isSafeToCreateProjectIn\<close>\<close>

definition errorLogFilePatterns :: "jsstring list" where
  "errorLogFilePatterns = [js ''npm-debug.log'']"

definition validFiles :: "jsstring list" where
  "validFiles = [js ''.DS_Store'', js ''Thumbs.db'', js ''.git'', js ''.gitignore'', js ''README.md'',
                 (js ''LICENSE''), js ''.npmignore'', js ''docs'', js ''.gitlab-ci.yml'', js ''.gitattributes'']"

text \<open>\<open>file.indexOf(pattern) === 0\<close>\<close>

definition starts_with :: "jsstring \<Rightarrow> jsstring \<Rightarrow> bool" where
  "starts_with file pattern \<longleftrightarrow> prefix pattern file"

definition conflicts_of :: "jsstring list \<Rightarrow> jsstring list" where
  "conflicts_of files =
     filter (\<lambda>file. \<not> list_ex (\<lambda>pattern. starts_with file pattern) errorLogFilePatterns)
       (filter (\<lambda>file. file \<notin> set validFiles) files)"

text \<open>An entry that is no conflict: on the allow-list, or a remnant log.\<close>

abbreviation benign :: "jsstring \<Rightarrow> bool" where
  "benign f \<equiv> f \<in> set validFiles \<or> prefix (js ''npm-debug.log'') f"

text \<open>The two nested \<open>forEach\<close> loops that remove the remnant logs.\<close>

definition remove_logs :: "jsstring list \<Rightarrow> 'c disk \<Rightarrow> 'c disk" where
  "remove_logs currentFiles d =
     fold (\<lambda>file. fold (\<lambda>errorLogFilePattern d'.
                           if starts_with file errorLogFilePattern then removeSync file d' else d')
                        errorLogFilePatterns)
          currentFiles d"

text \<open>The result: the value returned, the lines logged and the disk afterwards.\<close>

definition isSafeToCreateProjectIn ::
  "'c disk \<Rightarrow> jsstring \<Rightarrow> js_error + (bool \<times> jsstring list \<times> 'c disk)" where
  "isSafeToCreateProjectIn d name =
     (case readdirSync d of
        Inl e \<Rightarrow> Inl e
      | Inr files \<Rightarrow>
          let conflicts = conflicts_of files
          in if length conflicts > 0 then
               Inr (False,
                    [[], (js ''The directory '') @ name @ js '' contains files that could conflict:'', []]
                    @ map (\<lambda>c. (js ''  '') @ c) conflicts
                    @ [[], js ''Either try using a new directory name, or remove the files listed above.''],
                    d)
             else
               (case readdirSync d of
                  Inl e \<Rightarrow> Inl e
                | Inr currentFiles \<Rightarrow> Inr (True, [[]], remove_logs currentFiles d)))"

subsection \<open>The rollback: the callback of \<open>.catch\<close> in \<open>run\<close>\<close>

definition knownGeneratedFiles :: "jsstring list" where
  "knownGeneratedFiles = [js ''package.json'', js ''node_modules'']"

text \<open>\<open>console.log(reason)\<close> of an error.\<close>

fun show_error :: "js_error \<Rightarrow> jsstring" where
  "show_error TypeError = js ''TypeError''"
| "show_error (Failure m) = js ''Error: '' @ m"

definition abort_lines :: "reason \<Rightarrow> jsstring list" where
  "abort_lines reason =
     [[], js ''Aborting installation.'']
     @ (case reason of
          CommandFailed command \<Rightarrow>
            if command \<noteq> [] then [(js ''  '') @ command @ js '' has failed.'']
            else [js ''Unexpected error. Please report it as a bug:'', (js ''{ command: '') @ [0x27, 0x27] @ js '' }'']
        | Unexpected e \<Rightarrow> [js ''Unexpected error. Please report it as a bug:'', show_error e])
     @ [[]]"

text \<open>The two nested \<open>forEach\<close> loops that delete the generated files, with their log.\<close>

definition remove_generated :: "jsstring list \<Rightarrow> 'c disk \<times> jsstring list \<Rightarrow> 'c disk \<times> jsstring list" where
  "remove_generated currentFiles st =
     fold (\<lambda>file. fold (\<lambda>fileToMatch (d, lg).
                           if file = fileToMatch
                           then (removeSync file d, lg @ [(js ''Deleting generated file... '') @ file])
                           else (d, lg))
                        knownGeneratedFiles)
          currentFiles st"

text \<open>
  The result: the code the process exits with, the lines logged and the disk afterwards;
  \<open>Inl\<close> when reading the root throws, which leaves the callback before \<open>process.exit\<close>.
\<close>

definition rollback ::
  "jsstring \<Rightarrow> jsstring \<Rightarrow> reason \<Rightarrow> 'c disk \<Rightarrow> js_error + (int \<times> jsstring list \<times> 'c disk)" where
  "rollback root appName reason d =
     (case readdirSync d of
        Inl e \<Rightarrow> Inl e
      | Inr currentFiles \<Rightarrow>
          (let (d1, lg1) = remove_generated currentFiles (d, abort_lines reason)
           in (case readdirSync d1 of
                 Inl e \<Rightarrow> Inl e
               | Inr remainingFiles \<Rightarrow>
                   if length remainingFiles = 0 then
                     (let parent = path_resolve (cwd d1) [root, js ''..''];
                          lg2 = lg1 @ [(js ''Deleting '') @ appName @ js ''/ from '' @ parent]
                      in Inr (1, lg2 @ [js ''Done.''], removeRoot (chdir parent d1)))
                   else Inr (1, lg1 @ [js ''Done.''], d1))))"

subsection \<open>\<open>run\<close>\<close>

text \<open>
  The remaining collaborators of \<open>run\<close>, each with the disk it leaves behind.
  \<^item> The spawned \<open>npm\<close>: the exit code of its \<open>close\<close> event, or an \<open>error\<close> event when the
    process cannot be spawned. \<open>install\<close> listens to \<open>close\<close> only, so the \<open>error\<close> event is
    thrown as an uncaught exception.
  \<^item> The initializer: \<open>require\<close> of the script at the path and the call of \<open>init\<close>,
    which throw or return.
\<close>

datatype spawned = Closed "int option" | Spawn_error jsstring

record 'c system =
  spawn_npm :: "jsstring list \<Rightarrow> 'c disk \<Rightarrow> spawned \<times> 'c disk"
  init_script :: "jsstring \<Rightarrow> 'c disk \<Rightarrow> js_error option \<times> 'c disk"

text \<open>How the process ends, with the lines logged and the disk at that moment.\<close>

datatype 'c outcome =
    Exited int "jsstring list" "'c disk"
      \<comment> \<open>\<open>process.exit(code)\<close> at the end of the rollback\<close>
  | Threw js_error "jsstring list" "'c disk"
      \<comment> \<open>an uncaught exception ends the process (Node exits with code 1); no rollback has run\<close>
  | Unhandled js_error "jsstring list" "'c disk"
      \<comment> \<open>the rollback itself threw before \<open>process.exit\<close>\<close>
  | Handed_over "jsstring list" "'c disk"
      \<comment> \<open>the initializer returned\<close>

text \<open>The promise chain is rejected: the callback of \<open>.catch\<close> runs.\<close>

definition rolled_back ::
  "jsstring \<Rightarrow> jsstring \<Rightarrow> jsstring list \<Rightarrow> reason \<Rightarrow> 'c disk \<Rightarrow> 'c outcome" where
  "rolled_back root appName lg reason d =
     (case rollback root appName reason d of
        Inl e \<Rightarrow> Unhandled e lg d
      | Inr (code, lg', d') \<Rightarrow> Exited code (lg @ lg') d')"

text \<open>
  \<open>getInstallPackage\<close> and \<open>getPackageName\<close> are called by \<open>run\<close> itself, outside the
  promise chain: an exception they throw leaves \<open>run\<close> and is not seen by \<open>.catch\<close>.
\<close>

definition run ::
  "(jsstring \<Rightarrow> jsstring option) \<Rightarrow> collaborators \<Rightarrow> 'c system \<Rightarrow>
   jsstring \<Rightarrow> jsstring \<Rightarrow> jsstring option \<Rightarrow> bool \<Rightarrow> jsstring \<Rightarrow> 'c disk \<Rightarrow> 'c outcome" where
  "run valid env sys root appName version verbose originalDirectory d =
     (case getInstallPackage valid (cwd d) version originalDirectory of
        Inl e \<Rightarrow> Threw e [] d
      | Inr packageToInstall \<Rightarrow>
          (let allDependencies = [packageToInstall];
               lg = [js ''Installing packages. This might take a couple of minutes.'']
           in (case getPackageName env packageToInstall of
                 Inl e \<Rightarrow> Threw e lg d
               | Inr (lg1, named) \<Rightarrow>
                   (case named of
                      Killed e \<Rightarrow> Threw e (lg @ lg1) d
                    | Rejected reason \<Rightarrow> rolled_back root appName (lg @ lg1) reason d
                    | Resolved packageName \<Rightarrow>
                        (case spawn_npm sys (js ''npm'' # install_args allDependencies verbose) d of
                           (Spawn_error err, d1) \<Rightarrow> Threw (Failure err) (lg @ lg1) d1
                         | (Closed code, d1) \<Rightarrow>
                             (case snd (install allDependencies verbose code) of
                                Killed e \<Rightarrow> Threw e (lg @ lg1) d1
                              | Rejected reason \<Rightarrow> rolled_back root appName (lg @ lg1) reason d1
                              | Resolved _ \<Rightarrow>
                                  (case packageName of
                                     None \<Rightarrow>
                                       rolled_back root appName (lg @ lg1) (Unexpected TypeError) d1
                                   | Some name \<Rightarrow>
                                       (let scriptsPath =
                                              path_resolve (cwd d1)
                                                [cwd d1, js ''node_modules'', name,
                                                 js ''scripts'', js ''init.js'']
                                        in (case init_script sys scriptsPath d1 of
                                              (Some e, d2) \<Rightarrow>
                                                rolled_back root appName (lg @ lg1) (Unexpected e) d2
                                            | (None, d2) \<Rightarrow> Handed_over (lg @ lg1) d2)))))))))"

section \<open>Properties\<close>

subsection \<open>The installer's command line\<close>

text \<open>
  C1, as the script has it. The process is spawned as \<open>npm install --save --save-exact
  --loglevel error\<close>, then the references in the order supplied, then \<open>--verbose\<close> when
  requested: the flag follows the references. On any exit code but 0 (a missing code
  included) the promise is rejected with a \<open>command\<close> field that is this command line,
  joined by single spaces; on exit code 0 it is resolved.
\<close>

theorem install_command_line:
  "fst (install dependencies verbose code)
     = [js ''npm'', js ''install'', js ''--save'', js ''--save-exact'', js ''--loglevel'', js ''error'']
       @ dependencies @ (if verbose then [js ''--verbose''] else [])
   \<and> (code \<noteq> Some 0 \<longrightarrow>
        snd (install dependencies verbose code)
          = Rejected (CommandFailed (join (js '' '') (fst (install dependencies verbose code)))))
   \<and> (code = Some 0 \<longrightarrow> snd (install dependencies verbose code) = Resolved ())"
  by (simp add: install_def install_args_def Let_def)

theorem install_command_line_witness:
  "Some 1 \<noteq> Some (0::int)
   \<and> snd (install [js ''k8s-scripts'', js ''left-pad@1.3.0''] True (Some 1))
       = Rejected (CommandFailed
           (js ''npm install --save --save-exact --loglevel error k8s-scripts left-pad@1.3.0 --verbose''))
   \<and> snd (install [js ''k8s-scripts''] False (Some 0)) = Resolved ()"
  using install_command_line [of "[js ''k8s-scripts'', js ''left-pad@1.3.0'']" True "Some 1"]
        install_command_line [of "[js ''k8s-scripts'']" False "Some 0"]
  by simp

text \<open>
  C1 as the specification words it puts \<open>--verbose\<close> before the references. With one
  reference, the verbose flag and exit code 1 the command reported ends in \<open>--verbose\<close>.
\<close>

theorem install_verbose_order_counterexample:
  "snd (install [js ''k8s-scripts''] True (Some 1))
     = Rejected (CommandFailed
         (js ''npm install --save --save-exact --loglevel error k8s-scripts --verbose''))
   \<and> snd (install [js ''k8s-scripts''] True (Some 1))
     \<noteq> Rejected (CommandFailed
         (js ''npm install --save --save-exact --loglevel error --verbose k8s-scripts''))"
  by (simp add: install_def install_args_def)

subsection \<open>The directory guard\<close>

lemma removeSync_twice:
  "removeSync f (d\<lparr>root_dir := map_option (filter P) (root_dir d)\<rparr>)
     = d\<lparr>root_dir := map_option (filter (\<lambda>e. P e \<and> fst e \<noteq> f)) (root_dir d)\<rparr>"
  by (simp add: removeSync_def option.map_comp comp_def)

lemma filter_all: "d\<lparr>root_dir := map_option (filter (\<lambda>e. True)) (root_dir d)\<rparr> = d"
  by (cases "root_dir d") simp_all

lemma remove_logs_filter_gen:
  "remove_logs fs (d\<lparr>root_dir := map_option (filter P) (root_dir d)\<rparr>)
     = d\<lparr>root_dir := map_option
           (filter (\<lambda>e. P e \<and> \<not> (fst e \<in> set fs \<and> prefix (js ''npm-debug.log'') (fst e))))
           (root_dir d)\<rparr>"
proof (induction fs arbitrary: P)
  case Nil
  show ?case by (simp add: remove_logs_def)
next
  case (Cons f fs)
  have step: "remove_logs (f # fs) x
      = remove_logs fs (if prefix (js ''npm-debug.log'') f then removeSync f x else x)" for x :: "'a disk"
    by (simp add: remove_logs_def errorLogFilePatterns_def starts_with_def)
  show ?case
  proof (cases "prefix (js ''npm-debug.log'') f")
    case True
    have "(\<lambda>e. (P e \<and> fst e \<noteq> f) \<and> \<not> (fst e \<in> set fs \<and> prefix (js ''npm-debug.log'') (fst e)))
        = (\<lambda>e. P e \<and> \<not> (fst e \<in> set (f # fs) \<and> prefix (js ''npm-debug.log'') (fst e)))"
      using True by auto
    then show ?thesis
      using True by (simp only: step if_True removeSync_twice Cons.IH)
  next
    case False
    have "(\<lambda>e. P e \<and> \<not> (fst e \<in> set fs \<and> prefix (js ''npm-debug.log'') (fst e)))
        = (\<lambda>e. P e \<and> \<not> (fst e \<in> set (f # fs) \<and> prefix (js ''npm-debug.log'') (fst e)))"
      using False by auto
    then show ?thesis
      using False by (simp only: step if_False Cons.IH)
  qed
qed

lemma remove_logs_filter:
  "remove_logs fs d
     = d\<lparr>root_dir := map_option
           (filter (\<lambda>e. \<not> (fst e \<in> set fs \<and> prefix (js ''npm-debug.log'') (fst e))))
           (root_dir d)\<rparr>"
  using remove_logs_filter_gen [of fs "\<lambda>e. True" d] by (simp add: filter_all)

lemma remove_logs_listing:
  "root_dir d = Some es \<Longrightarrow>
   remove_logs (map fst es) d
     = d\<lparr>root_dir := Some (filter (\<lambda>e. \<not> prefix (js ''npm-debug.log'') (fst e)) es)\<rparr>"
proof -
  assume r: "root_dir d = Some es"
  have "filter (\<lambda>e. \<not> (fst e \<in> set (map fst es) \<and> prefix (js ''npm-debug.log'') (fst e))) es
      = filter (\<lambda>e. \<not> prefix (js ''npm-debug.log'') (fst e)) es"
    by (rule filter_cong) auto
  then show ?thesis by (simp add: remove_logs_filter r)
qed

lemma conflicts_of_eq:
  "conflicts_of files
     = filter (\<lambda>f. f \<notin> set validFiles \<and> \<not> prefix (js ''npm-debug.log'') f) files"
  by (simp add: conflicts_of_def errorLogFilePatterns_def starts_with_def conj_commute)

text \<open>
  C6. When the root exists, \<open>isSafeToCreateProjectIn\<close> returns a value; the value is false
  exactly when some entry is neither on the allow-list nor begins with \<open>npm-debug.log\<close>.
  When it is false the disk is untouched and the lines reported (each an entry name after
  two spaces) are exactly the conflicting entries.
\<close>

theorem guard_rejects_conflicts:
  assumes "root_dir d = Some es"
  shows "\<exists>b lg d'. isSafeToCreateProjectIn d name = Inr (b, lg, d')
           \<and> (b \<longleftrightarrow> (\<forall>e \<in> set es. benign (fst e)))
           \<and> (\<not> b \<longrightarrow> d' = d
                \<and> (\<forall>f. (js ''  '') @ f \<in> set lg \<longleftrightarrow> f \<in> fst ` set es \<and> \<not> benign f))"
proof (cases "conflicts_of (map fst es) = []")
  case True
  then have "\<forall>e \<in> set es. benign (fst e)"
    by (auto simp: conflicts_of_eq filter_empty_conv)
  then show ?thesis
    using True assms by (auto simp: isSafeToCreateProjectIn_def readdirSync_def)
next
  case False
  then have "\<not> (\<forall>e \<in> set es. benign (fst e))"
    by (auto simp: conflicts_of_eq filter_empty_conv)
  moreover have "f \<in> set (conflicts_of (map fst es)) \<longleftrightarrow> f \<in> fst ` set es \<and> \<not> benign f" for f
    by (auto simp: conflicts_of_eq)
  ultimately show ?thesis
    using False assms
    by (auto simp: isSafeToCreateProjectIn_def readdirSync_def image_iff)
qed

text \<open>
  The two directories of the specification: \<open>.git\<close> with \<open>README.md\<close> is safe; \<open>.git\<close>
  with \<open>dist\<close> is not, and \<open>dist\<close> is reported.
\<close>

theorem guard_rejects_conflicts_witness:
  "(\<exists>lg d'. isSafeToCreateProjectIn
       \<lparr>root_dir = Some [(js ''.git'', js ''tree''), (js ''README.md'', js ''text'')], cwd = js ''/home/u''\<rparr> (js ''app'')
       = Inr (True, lg, d'))
   \<and> (\<exists>lg d'. isSafeToCreateProjectIn
       \<lparr>root_dir = Some [(js ''.git'', js ''tree''), (js ''dist'', js ''tree'')], cwd = js ''/home/u''\<rparr> (js ''app'')
       = Inr (False, lg, d') \<and> js ''  dist'' \<in> set lg)"
  using guard_rejects_conflicts
          [of "\<lparr>root_dir = Some [(js ''.git'', js ''tree''), (js ''README.md'', js ''text'')], cwd = js ''/home/u''\<rparr>"
              "[(js ''.git'', js ''tree''), (js ''README.md'', js ''text'')]" "(js ''app'')"]
        guard_rejects_conflicts
          [of "\<lparr>root_dir = Some [(js ''.git'', js ''tree''), (js ''dist'', js ''tree'')], cwd = js ''/home/u''\<rparr>"
              "[(js ''.git'', js ''tree''), (js ''dist'', js ''tree'')]" "(js ''app'')"]
  by (auto simp: validFiles_def)

text \<open>
  C7. When every entry of the root is on the allow-list or begins with \<open>npm-debug.log\<close>,
  the guard returns true, and afterwards the root holds the entries that do not begin
  with \<open>npm-debug.log\<close>, unchanged and in their order: the logs are gone.
\<close>

theorem guard_removes_logs:
  assumes "root_dir d = Some es"
    and "\<forall>e \<in> set es. fst e \<in> set validFiles \<or> prefix (js ''npm-debug.log'') (fst e)"
  shows "\<exists>lg. isSafeToCreateProjectIn d name
           = Inr (True, lg,
                  d\<lparr>root_dir := Some (filter (\<lambda>e. \<not> prefix (js ''npm-debug.log'') (fst e)) es)\<rparr>)"
proof -
  have "conflicts_of (map fst es) = []"
    using assms(2) by (auto simp: conflicts_of_eq filter_empty_conv)
  then show ?thesis
    using assms(1) by (simp add: isSafeToCreateProjectIn_def readdirSync_def remove_logs_listing)
qed

theorem guard_removes_logs_witness:
  "root_dir \<lparr>root_dir = Some [(js ''README.md'', js ''text''), (js ''npm-debug.log.1234'', js ''log'')],
             cwd = js ''/home/u''\<rparr>
     = Some [(js ''README.md'', js ''text''), (js ''npm-debug.log.1234'', js ''log'')]
   \<and> js ''README.md'' \<in> set validFiles \<and> prefix (js ''npm-debug.log'') (js ''npm-debug.log.1234'')
   \<and> (\<exists>lg. isSafeToCreateProjectIn
          \<lparr>root_dir = Some [(js ''README.md'', js ''text''), (js ''npm-debug.log.1234'', js ''log'')],
           cwd = js ''/home/u''\<rparr> (js ''app'')
        = Inr (True, lg, \<lparr>root_dir = Some [(js ''README.md'', js ''text'')], cwd = js ''/home/u''\<rparr>))"
  using guard_removes_logs
          [of "\<lparr>root_dir = Some [(js ''README.md'', js ''text''), (js ''npm-debug.log.1234'', js ''log'')],
                cwd = js ''/home/u''\<rparr>"
              "[(js ''README.md'', js ''text''), (js ''npm-debug.log.1234'', js ''log'')]" "(js ''app'')"]
  by (simp add: validFiles_def)

subsection \<open>The rollback\<close>

lemma remove_generated_step:
  "remove_generated (f # fs) (x, lg)
     = remove_generated fs
         (if f \<in> set knownGeneratedFiles
          then (removeSync f x, lg @ [(js ''Deleting generated file... '') @ f]) else (x, lg))"
  by (simp add: remove_generated_def knownGeneratedFiles_def)

lemma remove_generated_filter_gen:
  "fst (remove_generated fs (d\<lparr>root_dir := map_option (filter P) (root_dir d)\<rparr>, lg))
     = d\<lparr>root_dir := map_option
           (filter (\<lambda>e. P e \<and> \<not> (fst e \<in> set fs \<and> fst e \<in> set knownGeneratedFiles)))
           (root_dir d)\<rparr>"
proof (induction fs arbitrary: P lg)
  case Nil
  show ?case by (simp add: remove_generated_def)
next
  case (Cons f fs)
  show ?case
  proof (cases "f \<in> set knownGeneratedFiles")
    case True
    have "(\<lambda>e. (P e \<and> fst e \<noteq> f) \<and> \<not> (fst e \<in> set fs \<and> fst e \<in> set knownGeneratedFiles))
        = (\<lambda>e. P e \<and> \<not> (fst e \<in> set (f # fs) \<and> fst e \<in> set knownGeneratedFiles))"
      using True by auto
    then show ?thesis
      using True by (simp only: remove_generated_step if_True removeSync_twice Cons.IH)
  next
    case False
    have "(\<lambda>e. P e \<and> \<not> (fst e \<in> set fs \<and> fst e \<in> set knownGeneratedFiles))
        = (\<lambda>e. P e \<and> \<not> (fst e \<in> set (f # fs) \<and> fst e \<in> set knownGeneratedFiles))"
      using False by auto
    then show ?thesis
      using False by (simp only: remove_generated_step if_False Cons.IH)
  qed
qed

lemma remove_generated_listing:
  assumes "root_dir d = Some es"
  shows "fst (remove_generated (map fst es) (d, lg))
     = d\<lparr>root_dir := Some (filter (\<lambda>e. fst e \<noteq> js ''package.json'' \<and> fst e \<noteq> js ''node_modules'') es)\<rparr>"
proof -
  have "filter (\<lambda>e. True \<and> \<not> (fst e \<in> set (map fst es) \<and> fst e \<in> set knownGeneratedFiles)) es
      = filter (\<lambda>e. fst e \<noteq> js ''package.json'' \<and> fst e \<noteq> js ''node_modules'') es"
    by (rule filter_cong) (auto simp: knownGeneratedFiles_def)
  moreover have "d\<lparr>root_dir := map_option (filter (\<lambda>e. True)) (root_dir d)\<rparr> = d"
    by (rule filter_all)
  ultimately show ?thesis
    using remove_generated_filter_gen [of "map fst es" "\<lambda>e. True" d lg] assms
    by (simp only: option.map)
qed

text \<open>
  What the callback does once it runs. When the root exists, it deletes the entries named
  \<open>package.json\<close> and \<open>node_modules\<close> and leaves every other entry as it was. If
  nothing is left, the root itself is deleted and the current directory becomes
  \<open>path.resolve(root, '..')\<close>; otherwise the root stays and the current directory is not
  changed. The process exits with code 1 in both cases, whatever the reason of the failure.
\<close>

lemma rollback_effect:
  assumes "root_dir d = Some es"
  shows "\<exists>lg. rollback root appName reason d
           = Inr (1, lg,
                  (let kept = filter (\<lambda>e. fst e \<noteq> js ''package.json'' \<and> fst e \<noteq> js ''node_modules'') es
                   in if kept = []
                      then d\<lparr>root_dir := None, cwd := path_resolve (cwd d) [root, js ''..'']\<rparr>
                      else d\<lparr>root_dir := Some kept\<rparr>))"
proof -
  obtain d1 lg1 where r: "remove_generated (map fst es) (d, abort_lines reason) = (d1, lg1)"
    by (cases "remove_generated (map fst es) (d, abort_lines reason)")
  have d1: "d1 = d\<lparr>root_dir := Some (filter (\<lambda>e. fst e \<noteq> js ''package.json'' \<and> fst e \<noteq> js ''node_modules'') es)\<rparr>"
    using remove_generated_listing [OF assms, of "abort_lines reason"] r by simp
  show ?thesis
    using assms r
    by (simp add: rollback_def readdirSync_def d1 removeRoot_def chdir_def Let_def)
qed

lemma rollback_examples:
  "root_dir \<lparr>root_dir = Some [(js ''package.json'', js ''json''), (js ''node_modules'', js ''tree'')],
             cwd = js ''/home/u/app''\<rparr>
      = Some [(js ''package.json'', js ''json''), (js ''node_modules'', js ''tree'')]
   \<and> (\<exists>lg. rollback (js ''/home/u/app'') (js ''app'') (CommandFailed (js ''npm install''))
          \<lparr>root_dir = Some [(js ''package.json'', js ''json''), (js ''node_modules'', js ''tree'')],
           cwd = js ''/home/u/app''\<rparr>
        = Inr (1, lg, \<lparr>root_dir = None, cwd = js ''/home/u''\<rparr>))
   \<and> (\<exists>lg. rollback (js ''/home/u/app'') (js ''app'') (Unexpected TypeError)
          \<lparr>root_dir = Some [(js ''.git'', js ''tree''), (js ''package.json'', js ''json'')],
           cwd = js ''/home/u/app''\<rparr>
        = Inr (1, lg, \<lparr>root_dir = Some [(js ''.git'', js ''tree'')], cwd = js ''/home/u/app''\<rparr>))"
  using rollback_effect
          [of "\<lparr>root_dir = Some [(js ''package.json'', js ''json''), (js ''node_modules'', js ''tree'')],
                cwd = js ''/home/u/app''\<rparr>"
              "[(js ''package.json'', js ''json''), (js ''node_modules'', js ''tree'')]"
              "(js ''/home/u/app'')" "(js ''app'')" "CommandFailed (js ''npm install'')"]
        rollback_effect
          [of "\<lparr>root_dir = Some [(js ''.git'', js ''tree''), (js ''package.json'', js ''json'')],
                cwd = js ''/home/u/app''\<rparr>"
              "[(js ''.git'', js ''tree''), (js ''package.json'', js ''json'')]"
              "(js ''/home/u/app'')" "(js ''app'')" "Unexpected TypeError"]
  by (simp add: path_resolve_def)

text \<open>
  For an absolute root without empty, \<open>.\<close> or \<open>..\<close> segments, \<open>path.resolve(root, '..')\<close>
  is the root without its last segment, whatever the current directory is.
\<close>

lemma split_at_clean: "c \<notin> set s \<Longrightarrow> split_at c s = [s]"
  by (induction s) auto

lemma split_at_append: "c \<notin> set s \<Longrightarrow> split_at c (s @ c # r) = s # split_at c r"
  by (induction s) auto

lemma split_at_join:
  assumes "\<forall>s \<in> set segs. c \<notin> set s" and "segs \<noteq> []"
  shows "split_at c (join [c] segs @ c # r) = segs @ split_at c r"
  using assms
proof (induction segs)
  case Nil
  then show ?case by simp
next
  case (Cons x xs)
  show ?case
  proof (cases xs)
    case Nil
    with Cons.prems show ?thesis by (simp add: split_at_append)
  next
    case (Cons y ys)
    with Cons.IH Cons.prems have "split_at c (join [c] xs @ c # r) = xs @ split_at c r"
      by simp
    with Cons Cons.prems show ?thesis
      by (simp add: split_at_append)
  qed
qed

lemma normalize_clean:
  assumes "\<forall>s \<in> set segs. s \<noteq> [] \<and> s \<noteq> js ''.'' \<and> s \<noteq> js ''..''"
  shows "normalize_segments allow acc (segs @ rest) = normalize_segments allow (rev segs @ acc) rest"
  using assms by (induction segs arbitrary: acc) simp_all

lemma path_resolve_parent:
  assumes "segs \<noteq> []"
    and "\<forall>s \<in> set segs. s \<noteq> [] \<and> unit CHR ''/'' \<notin> set s \<and> s \<noteq> js ''.'' \<and> s \<noteq> js ''..''"
  shows "path_resolve process_cwd [unit CHR ''/'' # join (js ''/'') segs, js ''..'']
           = unit CHR ''/'' # join (js ''/'') (butlast segs)"
proof -
  have clean: "\<forall>s \<in> set segs. s \<noteq> [] \<and> s \<noteq> js ''.'' \<and> s \<noteq> js ''..''"
    and slash: "\<forall>s \<in> set segs. unit CHR ''/'' \<notin> set s"
    using assms(2) by auto
  have split: "split_at (unit CHR ''/'') (join [unit CHR ''/''] segs @ unit CHR ''/'' # js ''../'')
                 = segs @ [js ''..'', []]"
    using split_at_join [OF slash assms(1), of "js ''../''"] by simp
  have last: "rev segs = last segs # rev (butlast segs)"
    using assms(1) by (metis append_butlast_last_id rev_append rev_singleton_conv append_Cons append_Nil)
  have keep: "last segs \<noteq> js ''..''"
    using clean assms(1) last_in_set by blast
  have "normalize_segments False [] ([] # segs @ [js ''..'', []]) = butlast segs"
    using normalize_clean [OF clean, of False "[]" "[js ''..'', []]"] last keep by simp
  then show ?thesis
    using split by (simp add: path_resolve_def)
qed

subsection \<open>Facts about the regular expressions\<close>

lemma concat_singletons: "concat (map (\<lambda>x. [x]) xs) = xs"
  by (induction xs) simp_all

lemma rmatch_Eps: "rmatch Eps = (\<lambda>st. [st])"
  by (rule ext) simp

lemma rmatch_Seq_Eps: "rmatch (Seq a Eps) st = rmatch a st"
  by (simp add: rmatch_Eps concat_singletons)

lemma rmatch_lit:
  "rmatch (lit t) (c, p, r)
     = (if prefix t r then [(c, p + length t, drop (length t) r)] else [])"
proof (induction t arbitrary: p r)
  case Nil
  show ?case by (simp add: lit_def)
next
  case (Cons x t)
  have unfold: "lit (x # t) = Seq (Atom (Chr x)) (lit t)"
    by (simp add: lit_def)
  show ?case
    by (cases r) (simp_all add: unfold Cons.IH)
qed

lemma rmatch_Seq_lit:
  "rmatch (Seq (lit t) b) (c, p, r)
     = (if prefix t r then rmatch b (c, p + length t, drop (length t) r) else [])"
  by (simp add: rmatch_lit)

lemma rmatch_Seq_nonempty:
  "rmatch (Seq a b) st \<noteq> [] \<longleftrightarrow> (\<exists>x \<in> set (rmatch a st). rmatch b x \<noteq> [])"
  by simp

lemma exec_from_Bol_later: "0 < p \<Longrightarrow> exec_from (Seq Bol b) p s = None"
  by (induction s arbitrary: p) simp_all

lemma re_match_Bol:
  "re_match (Seq Bol b) s
     = (case rmatch b (Map.empty, 0, s) of [] \<Rightarrow> None | st # _ \<Rightarrow> Some (fst st))"
  by (cases s) (simp_all add: re_match_def exec_from_Bol_later split: list.splits)

lemma re_test_Bol: "re_test (Seq Bol b) s \<longleftrightarrow> rmatch b (Map.empty, 0, s) \<noteq> []"
  by (simp add: re_test_def re_match_Bol split: list.splits)

lemma re_test_nonempty: "rmatch re (Map.empty, 0, s) \<noteq> [] \<Longrightarrow> re_test re s"
  by (cases s) (auto simp: re_test_def re_match_def split: list.splits)

lemma re_test_file: "re_test file_re s \<longleftrightarrow> prefix (js ''file:'') s"
  by (simp add: file_re_def seq_def re_test_Bol rmatch_Seq_Eps rmatch_lit)

lemma run_length_all: "\<forall>x \<in> set r. atom_ok a x \<Longrightarrow> run_length a r = length r"
  by (simp add: run_length_def takeWhile_eq_all_conv [THEN iffD2])

lemma re_match_file_path:
  assumes "P \<noteq> []" and "\<forall>x \<in> set P. \<not> line_terminator x"
  shows "\<exists>m. re_match file_path_re ((js ''file:'') @ P) = Some m \<and> m 1 = Some P"
proof -
  have n: "run_length Dot P = length P"
    using assms(2) by (simp add: run_length_all)
  have "[0..<Suc (length P)] = [0..<length P] @ [length P]"
    by simp
  then have r: "rev [0..<Suc (length P)] = length P # rev [0..<length P]"
    by simp
  show ?thesis
    using assms(1)
    by (simp add: file_path_re_def seq_def re_match_Bol rmatch_Seq_lit rmatch_lit advance_def n r
             del: upt_Suc)
qed

lemma re_match_file_empty:
  "\<exists>m. re_match file_path_re (js ''file:'') = Some m \<and> m 1 = None"
  by (simp add: file_path_re_def seq_def re_match_Bol rmatch_Seq_lit rmatch_lit advance_def run_length_def)

lemma rmatch_Plus_set:
  "x \<in> set (rmatch (Plus a) (c, p, r)) \<longleftrightarrow>
     (\<exists>k. 0 < k \<and> k \<le> run_length a r \<and> x = (c, p + k, drop k r))"
  by (auto simp: advance_def image_iff)

lemma archive_extension:
  assumes "rmatch (Seq (lit (js ''.'')) (Seq (Group 1 (Alt (lit (js ''tgz'')) (lit (js ''tar.gz'')))) (Seq Eol Eps)))
             (c, p, r) \<noteq> []"
  shows "r = js ''.tgz'' \<or> r = js ''.tar.gz''"
proof -
  from assms have "prefix (js ''.'') r"
    and m: "rmatch (Seq (Group 1 (Alt (lit (js ''tgz'')) (lit (js ''tar.gz'')))) (Seq Eol Eps))
                (c, p + length (js ''.''), drop (length (js ''.'')) r) \<noteq> []"
    unfolding rmatch_Seq_lit by (simp_all only: simp_thms split: if_splits)
  then obtain r' where r: "r = unit CHR ''.'' # r'"
    by (auto simp: prefix_def)
  from m have "(prefix (js ''tgz'') r' \<and> drop 3 r' = []) \<or> (prefix (js ''tar.gz'') r' \<and> drop 6 r' = [])"
    unfolding r by (auto simp: rmatch_lit split: if_splits)
  then have "r' = js ''tgz'' \<or> r' = js ''tar.gz''"
    by (auto simp: prefix_def)
  with r show ?thesis by simp
qed

lemma re_test_tarball_suffix:
  assumes "re_test tarball_re s"
  shows "suffix (js ''.tgz'') s \<or> suffix (js ''.tar.gz'') s"
proof -
  let ?tail = "Seq (lit (js ''.'')) (Seq (Group 1 (Alt (lit (js ''tgz'')) (lit (js ''tar.gz'')))) (Seq Eol Eps))"
  have shape: "tarball_re = Seq Bol (Seq (Plus Dot) ?tail)"
    by (simp add: tarball_re_def seq_def)
  from assms have "rmatch (Seq (Plus Dot) ?tail) (Map.empty, 0, s) \<noteq> []"
    unfolding shape re_test_Bol .
  then obtain x where x: "x \<in> set (rmatch (Plus Dot) (Map.empty, 0, s))"
      and t: "rmatch ?tail x \<noteq> []"
    using rmatch_Seq_nonempty [THEN iffD1] by blast
  from x obtain k where k: "x = (Map.empty, k, drop k s)"
    using rmatch_Plus_set [THEN iffD1] by fastforce
  from t have "drop k s = js ''.tgz'' \<or> drop k s = js ''.tar.gz''"
    unfolding k by (rule archive_extension)
  then show ?thesis
    by (metis suffix_drop)
qed

lemma run_length_app:
  "\<forall>x \<in> set u. atom_ok a x \<Longrightarrow> length u \<le> run_length a (u @ v)"
  by (simp add: run_length_def takeWhile_append2)

lemma re_test_at:
  assumes "u \<noteq> []" and "\<forall>x \<in> set u. \<not> line_terminator x"
  shows "re_test at_re (u @ js ''@'' @ t)"
proof -
  have len: "length u \<le> run_length Dot (u @ js ''@'' @ t)"
    using assms(2) by (simp add: run_length_app)
  have pos: "0 < length u"
    using assms(1) by simp
  have "(Map.empty, 0 + length u, drop (length u) (u @ js ''@'' @ t))
          \<in> set (rmatch (Plus Dot) (Map.empty, 0, u @ js ''@'' @ t))"
    using len pos by (simp only: rmatch_Plus_set) blast
  moreover have "rmatch (Seq (lit (js ''@'')) Eps) (Map.empty, 0 + length u, drop (length u) (u @ js ''@'' @ t)) \<noteq> []"
    by (simp add: rmatch_Seq_Eps rmatch_lit)
  ultimately have "rmatch (Seq (Plus Dot) (Seq (lit (js ''@'')) Eps)) (Map.empty, 0, u @ js ''@'' @ t) \<noteq> []"
    using rmatch_Seq_nonempty [THEN iffD2] by blast
  moreover have "at_re = Seq (Plus Dot) (Seq (lit (js ''@'')) Eps)"
    by (simp add: at_re_def seq_def)
  ultimately have "rmatch at_re (Map.empty, 0, u @ js ''@'' @ t) \<noteq> []"
    by metis
  then show ?thesis by (rule re_test_nonempty)
qed

lemma stem_needs_directory:
  assumes "(unit CHR ''/'') \<notin> set s"
  shows "re_match stem_re s = None"
proof -
  let ?rest = "Seq (Group 1 (PlusLazy Dot))
                 (Seq (Opt (seq [lit (js ''-''), Plus Digit, Plus Dot]))
                    (Seq (lit (js ''.'')) (Seq (Group 2 (Alt (lit (js ''tgz'')) (lit (js ''tar.gz'')))) (Seq Eol Eps))))"
  have shape: "stem_re = Seq Bol (Seq (Plus Dot) (Seq (lit (js ''/'')) ?rest))"
    by (simp add: stem_re_def seq_def)
  have "rmatch (Seq (Plus Dot) (Seq (lit (js ''/'')) ?rest)) (Map.empty, 0, s) = []"
  proof (rule ccontr)
    assume "rmatch (Seq (Plus Dot) (Seq (lit (js ''/'')) ?rest)) (Map.empty, 0, s) \<noteq> []"
    then obtain x where x: "x \<in> set (rmatch (Plus Dot) (Map.empty, 0, s))"
        and t: "rmatch (Seq (lit (js ''/'')) ?rest) x \<noteq> []"
      using rmatch_Seq_nonempty [THEN iffD1] by blast
    from x obtain k where k: "x = (Map.empty, k, drop k s)"
      using rmatch_Plus_set [THEN iffD1] by fastforce
    from t have "prefix (js ''/'') (drop k s)"
      unfolding k rmatch_Seq_lit by (simp only: simp_thms split: if_splits)
    then have "(unit CHR ''/'') \<in> set (drop k s)"
      by (auto simp: prefix_def)
    then show False
      using assms by (auto dest: in_set_dropD)
  qed
  then show ?thesis
    by (simp only: shape re_match_Bol list.case)
qed

lemma assume_name_without_directory:
  "(unit CHR ''/'') \<notin> set s \<Longrightarrow>
   assume_name s message
     = ([(js ''Could not extract the package name from the archive: '') @ message],
        Rejected (Unexpected TypeError))"
  by (simp add: assume_name_def stem_needs_directory)

subsection \<open>Resolving the version argument\<close>

text \<open>The model of \<open>semver.valid\<close> never accepts a dist-tag and never returns an empty version.\<close>

lemma semver_valid_nonempty: "semver_valid V = Some V' \<Longrightarrow> V' \<noteq> []"
  by (auto simp: semver_valid_def Let_def split: if_splits)

lemma semver_valid_tag: "semver_valid ((unit CHR ''@'') # t) = None"
  by (auto simp: semver_valid_def Let_def numeric_identifier_def is_digit_def
           split: list.splits if_splits)

text \<open>
  C2, as the script has it. When \<open>semver.valid\<close> accepts the argument, the reference is
  \<open>k8s-scripts@\<close> followed by the version that \<open>semver.valid\<close> returns for it, which is
  the argument itself only when the argument is already in that form.
\<close>

theorem resolve_semver:
  assumes "valid V = Some V'" and "V' \<noteq> []"
  shows "getInstallPackage valid process_cwd (Some V) originalDirectory
           = Inr ((js ''k8s-scripts@'') @ V')"
  using assms by (simp add: getInstallPackage_def)

theorem resolve_semver_witness:
  "semver_valid (js ''v1.2.3'') = Some (js ''1.2.3'')
   \<and> getInstallPackage semver_valid (js ''/'') (Some (js ''v1.2.3'')) (js ''/home/u'') = Inr (js ''k8s-scripts@1.2.3'')
   \<and> getInstallPackage semver_valid (js ''/'') (Some (js ''0.8.2'')) (js ''/home/u'') = Inr (js ''k8s-scripts@0.8.2'')"
proof -
  have a: "semver_valid (js ''v1.2.3'') = Some (js ''1.2.3'')" by code_simp
  have b: "semver_valid (js ''0.8.2'') = Some (js ''0.8.2'')" by code_simp
  show ?thesis
    using a b
          resolve_semver [of semver_valid "(js ''v1.2.3'')" "(js ''1.2.3'')" "(js ''/'')" "(js ''/home/u'')"]
          resolve_semver [of semver_valid "(js ''0.8.2'')" "(js ''0.8.2'')" "(js ''/'')" "(js ''/home/u'')"]
    by simp
qed

text \<open>
  C2 as the specification words it promises the argument itself after the \<open>@\<close>. The
  version \<open>1.2.3+build\<close> is valid, and the reference built from it has no build metadata.
\<close>

theorem resolve_semver_counterexample:
  "semver_valid (js ''1.2.3+build'') = Some (js ''1.2.3'')
   \<and> getInstallPackage semver_valid (js ''/'') (Some (js ''1.2.3+build'')) (js ''/home/u'')
       = Inr (js ''k8s-scripts@1.2.3'')
   \<and> getInstallPackage semver_valid (js ''/'') (Some (js ''1.2.3+build'')) (js ''/home/u'')
       \<noteq> Inr (js ''k8s-scripts@1.2.3+build'')"
  by code_simp

text \<open>
  What holds of a \<open>file:\<close> argument: a path that is not empty and has no line terminator
  is resolved against the original directory, and with an absolute original directory
  the process's current directory plays no part. An argument that does not begin with
  \<open>file:\<close> always yields a reference.
\<close>

lemma resolve_file_path:
  assumes "\<not> truthy (valid ((js ''file:'') @ P))"
    and "P \<noteq> []" and "\<forall>x \<in> set P. \<not> line_terminator x"
  shows "getInstallPackage valid process_cwd (Some ((js ''file:'') @ P)) originalDirectory
           = Inr ((js ''file:'') @ path_resolve process_cwd [originalDirectory, P])"
proof -
  obtain m where "re_match file_path_re ((js ''file:'') @ P) = Some m" and "m 1 = Some P"
    using re_match_file_path [OF assms(2,3)] by blast
  then show ?thesis
    using assms(1) by (simp add: getInstallPackage_def re_test_file)
qed

lemma path_resolve_absolute:
  assumes "C \<noteq> []" and "hd C = unit CHR ''/''"
  shows "path_resolve process_cwd [C, P] = path_resolve other_cwd [C, P]"
  using assms by (simp add: path_resolve_def)

lemma resolve_outside_file:
  "(\<And>v. version = Some v \<Longrightarrow> \<not> prefix (js ''file:'') v) \<Longrightarrow>
   \<exists>r. getInstallPackage valid process_cwd version originalDirectory = Inr r"
  by (cases version) (simp_all add: getInstallPackage_def re_test_file Let_def)

text \<open>
  C9 says that every input yields a reference and nothing is thrown. On the argument
  \<open>file:\<close> the optional group of \<open>/^file:(.*)?$/\<close> stays undefined, \<open>path.resolve\<close>
  refuses the \<open>undefined\<close> argument, and the function throws a \<open>TypeError\<close>. On a
  \<open>file:\<close> path with a carriage return the match is \<open>null\<close> and indexing it throws.
\<close>

theorem resolve_file_throws:
  "getInstallPackage semver_valid (js ''/'') (Some (js ''file:'')) (js ''/home/u'') = Inl TypeError
   \<and> getInstallPackage semver_valid (js ''/'') (Some ((js ''file:x'') @ [0x0D] @ js ''y'')) (js ''/home/u'')
       = Inl TypeError"
  by code_simp

text \<open>
  C8 says that every relative path after \<open>file:\<close> is resolved against the original
  directory. On a path with a line feed, here \<open>a\<close>, line feed, \<open>b\<close>, the pattern
  \<open>/^file:(.*)?$/\<close> does not match, the script indexes \<open>null\<close>, and the function throws a
  \<open>TypeError\<close> instead of returning a reference.
\<close>

theorem resolve_file_newline_throws:
  "getInstallPackage semver_valid (js ''/'') (Some ((js ''file:a'') @ [0x0A] @ js ''b'')) (js ''/home/u'')
     = Inl TypeError"
  by code_simp

text \<open>The same on a path that holds U+2028, the line separator.\<close>

lemma resolve_file_separator:
  "getInstallPackage semver_valid (js ''/'') (Some (js ''file:a'' @ [0x2028] @ js ''b'')) (js ''/home/u'')
     = Inl TypeError"
  by code_simp

subsection \<open>Extracting the package name\<close>

lemma suffix_after_char:
  assumes "suffix e (u @ a # t)" and "a \<notin> set e"
  shows "suffix e t"
proof -
  have "suffix e ((u @ [a]) @ t)"
    using assms(1) by simp
  then consider "suffix e t" | e' where "e = e' @ t" and "suffix e' (u @ [a])"
    unfolding suffix_append by blast
  then show ?thesis
  proof cases
    case 1
    then show ?thesis .
  next
    case 2
    from 2(2) have "e' = [] \<or> a \<in> set e'"
      by (auto simp: suffix_snoc)
    with 2(1) assms(2) show ?thesis by auto
  qed
qed

lemma suffix_after_at:
  assumes "suffix e ((js ''k8s-scripts@'') @ t)" and "(unit CHR ''@'') \<notin> set e"
  shows "suffix e t"
  using suffix_after_char [of e "(js ''k8s-scripts'')" "(unit CHR ''@'')" t] assms by simp

lemma name_of_qualified:
  assumes "\<not> suffix (js ''.tgz'') t" and "\<not> suffix (js ''.tar.gz'') t"
  shows "getPackageName env ((js ''k8s-scripts@'') @ t) = Inr ([], Resolved (Some (js ''k8s-scripts'')))"
proof -
  have "\<not> suffix (js ''.tgz'') ((js ''k8s-scripts@'') @ t)" "\<not> suffix (js ''.tar.gz'') ((js ''k8s-scripts@'') @ t)"
    using assms suffix_after_at [of "(js ''.tgz'')" t] suffix_after_at [of "(js ''.tar.gz'')" t]
    by auto
  then have a: "\<not> re_test tarball_re ((js ''k8s-scripts@'') @ t)"
    using re_test_tarball_suffix by blast
  have "re_test at_re ((js ''k8s-scripts'') @ js ''@'' @ t)"
    by (rule re_test_at) (simp_all add: line_terminator_def)
  then have b: "re_test at_re ((js ''k8s-scripts@'') @ t)"
    by simp
  show ?thesis
    using a b by (simp add: getPackageName_def)
qed

lemma name_of_default:
  "getPackageName env (js ''k8s-scripts'') = Inr ([], Resolved (Some (js ''k8s-scripts'')))"
proof -
  have "\<not> re_test tarball_re (js ''k8s-scripts'')" by code_simp
  moreover have "\<not> re_test at_re (js ''k8s-scripts'')" by code_simp
  moreover have "\<not> re_test file_re (js ''k8s-scripts'')" by code_simp
  ultimately show ?thesis
    by (simp add: getPackageName_def)
qed

text \<open>
  C10, as the script has it. For an absent argument, for an argument that
  \<open>semver.valid\<close> accepts with a version that does not end in \<open>.tgz\<close> or \<open>.tar.gz\<close>, and
  for a dist-tag (an \<open>@\<close>, then no \<open>/\<close>, not accepted by \<open>semver.valid\<close>) that does not end
  in \<open>.tgz\<close> or \<open>.tar.gz\<close>, the name extracted from the resolved reference is
  \<open>k8s-scripts\<close>, with nothing logged and whatever the collaborators do.
\<close>

theorem resolve_then_name:
  assumes "version = None
     \<or> (\<exists>v v'. version = Some v \<and> valid v = Some v' \<and> v' \<noteq> []
                \<and> \<not> suffix (js ''.tgz'') v' \<and> \<not> suffix (js ''.tar.gz'') v')
     \<or> (\<exists>t. version = Some ((unit CHR ''@'') # t) \<and> \<not> truthy (valid ((unit CHR ''@'') # t))
             \<and> unit CHR ''/'' \<notin> set t \<and> \<not> suffix (js ''.tgz'') t \<and> \<not> suffix (js ''.tar.gz'') t)"
  shows "\<exists>r. getInstallPackage valid process_cwd version originalDirectory = Inr r
            \<and> getPackageName env r = Inr ([], Resolved (Some (js ''k8s-scripts'')))"
  using assms
proof (elim disjE exE conjE)
  assume "version = None"
  then show ?thesis
    using name_of_default [of env] by (simp add: getInstallPackage_def)
next
  fix v v'
  assume "version = Some v" "valid v = Some v'" "v' \<noteq> []"
    and "\<not> suffix (js ''.tgz'') v'" "\<not> suffix (js ''.tar.gz'') v'"
  then show ?thesis
    using name_of_qualified [of v' env] by (simp add: getInstallPackage_def)
next
  fix t
  assume "version = Some ((unit CHR ''@'') # t)" "\<not> truthy (valid ((unit CHR ''@'') # t))" "(unit CHR ''/'') \<notin> set t"
    and "\<not> suffix (js ''.tgz'') t" "\<not> suffix (js ''.tar.gz'') t"
  then show ?thesis
    using name_of_qualified [of t env] by (simp add: getInstallPackage_def)
qed

theorem resolve_then_name_witness:
  "getInstallPackage semver_valid (js ''/'') (Some (js ''@next'')) (js ''/home/u'') = Inr (js ''k8s-scripts@next'')
   \<and> getPackageName \<lparr>tmp_dir = Inl (js ''EACCES''), unpack = (\<lambda>_ _. Unpack_error (js ''invalid tar file'')),
                      manifest_name = (\<lambda>_. Inl (js ''MODULE_NOT_FOUND''))\<rparr> (js ''k8s-scripts@next'')
       = Inr ([], Resolved (Some (js ''k8s-scripts'')))"
proof -
  have v: "\<not> truthy (semver_valid (js ''@next''))" by code_simp
  have r: "getInstallPackage semver_valid (js ''/'') (Some (js ''@next'')) (js ''/home/u'') = Inr (js ''k8s-scripts@next'')"
    by code_simp
  show ?thesis
    using v r
      resolve_then_name [of "Some (js ''@next'')" semver_valid "(js ''/'')" "(js ''/home/u'')"
        "\<lparr>tmp_dir = Inl (js ''EACCES''), unpack = (\<lambda>_ _. Unpack_error (js ''invalid tar file'')),
          manifest_name = (\<lambda>_. Inl (js ''MODULE_NOT_FOUND''))\<rparr>"]
    by (simp add: suffix_def)
qed

text \<open>
  C10 as stated covers every dist-tag and every valid version. The dist-tag \<open>@a.tgz\<close> and
  the valid version \<open>1.2.3-a.tgz\<close> resolve to references that end in \<open>.tgz\<close>: the name
  extraction takes them for archives, and when such an archive unpacks with a manifest
  named \<open>bar\<close>, the name is \<open>bar\<close>.
\<close>

theorem resolve_then_name_counterexample:
  "getInstallPackage semver_valid (js ''/'') (Some (js ''@a.tgz'')) (js ''/home/u'') = Inr (js ''k8s-scripts@a.tgz'')
   \<and> getPackageName \<lparr>tmp_dir = Inr (js ''/tmp/t''), unpack = (\<lambda>_ _. Unpacked),
                      manifest_name = (\<lambda>_. Inr (Some (js ''bar'')))\<rparr> (js ''k8s-scripts@a.tgz'')
       = Inr ([], Resolved (Some (js ''bar'')))
   \<and> getInstallPackage semver_valid (js ''/'') (Some (js ''1.2.3-a.tgz'')) (js ''/home/u'')
       = Inr (js ''k8s-scripts@1.2.3-a.tgz'')
   \<and> getPackageName \<lparr>tmp_dir = Inr (js ''/tmp/t''), unpack = (\<lambda>_ _. Unpacked),
                      manifest_name = (\<lambda>_. Inr (Some (js ''bar'')))\<rparr> (js ''k8s-scripts@1.2.3-a.tgz'')
       = Inr ([], Resolved (Some (js ''bar'')))"
  by code_simp

text \<open>
  C3 says that a failed read of the archive always ends in a name inferred from the
  file name. For the archive \<open>k8s-scripts-0.2.0-alpha.1.tgz\<close>, given without a directory,
  whichever step fails (the temporary directory, the unpacking, the manifest), the
  pattern of the fallback (which asks for a \<open>/\<close> before the stem) does not match, the
  callback throws on indexing \<open>null\<close> after its first log line, and the promise is
  rejected with a \<open>TypeError\<close>.
\<close>

theorem archive_name_fallback_throws:
  "getPackageName \<lparr>tmp_dir = Inl message, unpack = u, manifest_name = n\<rparr>
       (js ''k8s-scripts-0.2.0-alpha.1.tgz'')
     = Inr ([(js ''Could not extract the package name from the archive: '') @ message],
            Rejected (Unexpected TypeError))
   \<and> getPackageName \<lparr>tmp_dir = Inr tmpdir, unpack = (\<lambda>_ _. Unpack_error message), manifest_name = n\<rparr>
       (js ''k8s-scripts-0.2.0-alpha.1.tgz'')
     = Inr ([(js ''Could not extract the package name from the archive: '') @ message],
            Rejected (Unexpected TypeError))
   \<and> getPackageName \<lparr>tmp_dir = Inr tmpdir, unpack = (\<lambda>_ _. Unpacked),
                      manifest_name = (\<lambda>_. Inl message)\<rparr>
       (js ''k8s-scripts-0.2.0-alpha.1.tgz'')
     = Inr ([(js ''Could not extract the package name from the archive: '') @ message],
            Rejected (Unexpected TypeError))"
proof -
  have archive: "re_test tarball_re (js ''k8s-scripts-0.2.0-alpha.1.tgz'')"
    by code_simp
  have bare: "(unit CHR ''/'') \<notin> set (js ''k8s-scripts-0.2.0-alpha.1.tgz'')"
    by simp
  show ?thesis
    using archive assume_name_without_directory [OF bare]
    by (simp add: getPackageName_def)
qed

text \<open>
  C4 is about the reference \<open>foo-1.2.3.tgz\<close> with a manifest named \<open>bar\<close>. When unpacking
  succeeds the name is \<open>bar\<close>; when unpacking fails the promise is rejected with a
  \<open>TypeError\<close>, not resolved to \<open>foo\<close>.
\<close>

theorem foo_archive_name:
  "getPackageName \<lparr>tmp_dir = Inr (js ''/tmp/t''), unpack = (\<lambda>_ _. Unpacked),
                    manifest_name = (\<lambda>_. Inr (Some (js ''bar'')))\<rparr> (js ''foo-1.2.3.tgz'')
     = Inr ([], Resolved (Some (js ''bar'')))
   \<and> getPackageName \<lparr>tmp_dir = Inr (js ''/tmp/t''), unpack = (\<lambda>_ _. Unpack_error (js ''invalid tar file'')),
                      manifest_name = (\<lambda>_. Inr (Some (js ''bar'')))\<rparr> (js ''foo-1.2.3.tgz'')
     = Inr ([js ''Could not extract the package name from the archive: invalid tar file''],
            Rejected (Unexpected TypeError))"
  by code_simp

text \<open>With a directory before the file name the fallback gives \<open>foo\<close>.\<close>

lemma directory_archive_name:
  "getPackageName \<lparr>tmp_dir = Inr (js ''/tmp/t''), unpack = (\<lambda>_ _. Unpack_error (js ''invalid tar file'')),
                    manifest_name = (\<lambda>_. Inr (Some (js ''bar'')))\<rparr> (js ''./foo-1.2.3.tgz'')
     = Inr ([js ''Could not extract the package name from the archive: invalid tar file'',
             (js ''Based on the filename, assuming it is '') @ [0x22] @ js ''foo'' @ [0x22]],
            Resolved (Some (js ''foo'')))"
  by code_simp

text \<open>
  An error of the source stream is no rejection: the process ends with the promise of
  the name still pending.
\<close>

lemma archive_stream_error:
  assumes "re_test tarball_re s" and "tmp_dir env = Inr tmpdir"
    and "unpack env (if re_test http_re s then Http s else File s) tmpdir = Stream_error message"
  shows "getPackageName env s = Inr ([], Killed (Failure message))"
  using assms by (simp add: getPackageName_def)

subsection \<open>The pipeline of \<open>run\<close>\<close>

text \<open>
  Every rejection of the promise chain reaches the rollback: a rejected name, a failed
  install, a failure in loading or running the initializer. An error event of the archive
  stream ends the process without it.
\<close>

lemma rolled_back_effect:
  assumes "root_dir d = Some es"
  shows "\<exists>lg'. rolled_back root appName lg reason d
           = Exited 1 (lg @ lg')
               (let kept = filter (\<lambda>e. fst e \<noteq> js ''package.json'' \<and> fst e \<noteq> js ''node_modules'') es
                in if kept = []
                   then d\<lparr>root_dir := None, cwd := path_resolve (cwd d) [root, js ''..'']\<rparr>
                   else d\<lparr>root_dir := Some kept\<rparr>)"
proof -
  obtain lg' where "rollback root appName reason d
           = Inr (1, lg',
                  (let kept = filter (\<lambda>e. fst e \<noteq> js ''package.json'' \<and> fst e \<noteq> js ''node_modules'') es
                   in if kept = []
                      then d\<lparr>root_dir := None, cwd := path_resolve (cwd d) [root, js ''..'']\<rparr>
                      else d\<lparr>root_dir := Some kept\<rparr>))"
    using rollback_effect [OF assms] by blast
  then show ?thesis
    by (simp add: rolled_back_def)
qed

lemma run_stream_error:
  assumes "getInstallPackage valid (cwd d) version originalDirectory = Inr ref"
    and "getPackageName env ref = Inr (lg1, Killed e)"
  shows "run valid env sys root appName version verbose originalDirectory d
           = Threw e (js ''Installing packages. This might take a couple of minutes.'' # lg1) d"
  using assms by (simp add: run_def)

lemma run_rejected_name:
  assumes "getInstallPackage valid (cwd d) version originalDirectory = Inr ref"
    and "getPackageName env ref = Inr (lg1, Rejected reason)"
  shows "run valid env sys root appName version verbose originalDirectory d
           = rolled_back root appName
               (js ''Installing packages. This might take a couple of minutes.'' # lg1) reason d"
  using assms by (simp add: run_def)

lemma run_failed_install:
  assumes "getInstallPackage valid (cwd d) version originalDirectory = Inr ref"
    and "getPackageName env ref = Inr (lg1, Resolved packageName)"
    and "spawn_npm sys (js ''npm'' # install_args [ref] verbose) d = (Closed code, d1)"
    and "code \<noteq> Some 0"
  shows "run valid env sys root appName version verbose originalDirectory d
           = rolled_back root appName
               (js ''Installing packages. This might take a couple of minutes.'' # lg1)
               (CommandFailed (join (js '' '') (js ''npm'' # install_args [ref] verbose))) d1"
  using assms by (simp add: run_def install_def install_args_def)

lemma run_failed_init:
  assumes "getInstallPackage valid (cwd d) version originalDirectory = Inr ref"
    and "getPackageName env ref = Inr (lg1, Resolved (Some name))"
    and "spawn_npm sys (js ''npm'' # install_args [ref] verbose) d = (Closed (Some 0), d1)"
    and "init_script sys
           (path_resolve (cwd d1) [cwd d1, js ''node_modules'', name, js ''scripts'', js ''init.js''])
           d1 = (Some e, d2)"
  shows "run valid env sys root appName version verbose originalDirectory d
           = rolled_back root appName
               (js ''Installing packages. This might take a couple of minutes.'' # lg1)
               (Unexpected e) d2"
  using assms by (simp add: run_def install_def)

lemma run_handed_over:
  assumes "getInstallPackage valid (cwd d) version originalDirectory = Inr ref"
    and "getPackageName env ref = Inr (lg1, Resolved (Some name))"
    and "spawn_npm sys (js ''npm'' # install_args [ref] verbose) d = (Closed (Some 0), d1)"
    and "init_script sys
           (path_resolve (cwd d1) [cwd d1, js ''node_modules'', name, js ''scripts'', js ''init.js''])
           d1 = (None, d2)"
  shows "run valid env sys root appName version verbose originalDirectory d
           = Handed_over (js ''Installing packages. This might take a couple of minutes.'' # lg1) d2"
  using assms by (simp add: run_def install_def)

text \<open>
  Three arguments on which \<open>getInstallPackage\<close> or \<open>getPackageName\<close> throws instead of
  returning: \<open>file:\<close> without a path, a git reference that does not end in \<open>.git\<close>, and
  a local package whose manifest cannot be loaded.
\<close>

lemma resolve_file_empty:
  "getInstallPackage semver_valid process_cwd (Some (js ''file:'')) originalDirectory = Inl TypeError"
proof -
  have v: "semver_valid (js ''file:'') = None" by code_simp
  obtain m where "re_match file_path_re (js ''file:'') = Some m" and "m 1 = None"
    using re_match_file_empty by blast
  then show ?thesis
    using v re_test_file [of "js ''file:''"] by (simp add: getInstallPackage_def)
qed

lemma git_without_suffix:
  "getInstallPackage semver_valid process_cwd (Some (js ''git+https://host/repo'')) originalDirectory
     = Inr (js ''git+https://host/repo'')"
  "getPackageName env (js ''git+https://host/repo'') = Inl TypeError"
proof -
  have v: "semver_valid (js ''git+https://host/repo'') = None" by code_simp
  show "getInstallPackage semver_valid process_cwd (Some (js ''git+https://host/repo'')) originalDirectory
     = Inr (js ''git+https://host/repo'')"
    using v re_test_file [of "js ''git+https://host/repo''"] by (simp add: getInstallPackage_def)
  have a: "\<not> re_test tarball_re (js ''git+https://host/repo'')" by code_simp
  have "\<not> re_test git_re (js ''git+https://host/repo'')" by code_simp
  then have g: "re_match git_re (js ''git+https://host/repo'') = None"
    by (simp add: re_test_def)
  show "getPackageName env (js ''git+https://host/repo'') = Inl TypeError"
    using a g by (simp add: getPackageName_def)
qed

lemma local_without_manifest:
  "getInstallPackage semver_valid process_cwd (Some (js ''file:../missing'')) (js ''/home/u'')
     = Inr (js ''file:/home/missing'')"
  "getPackageName \<lparr>tmp_dir = t, unpack = u, manifest_name = (\<lambda>_. Inl message)\<rparr>
       (js ''file:/home/missing'')
     = Inl (Failure message)"
proof -
  have v: "\<not> truthy (semver_valid (js ''file:'' @ js ''../missing''))" by code_simp
  show "getInstallPackage semver_valid process_cwd (Some (js ''file:../missing'')) (js ''/home/u'')
     = Inr (js ''file:/home/missing'')"
    using resolve_file_path [of semver_valid "js ''../missing''" process_cwd "js ''/home/u''", OF v]
    by (simp add: line_terminator_def path_resolve_def)
  have a: "\<not> re_test tarball_re (js ''file:/home/missing'')" by code_simp
  have b: "\<not> re_test at_re (js ''file:/home/missing'')" by code_simp
  obtain m where m: "re_match file_path_re (js ''file:'' @ js ''/home/missing'') = Some m"
      "m 1 = Some (js ''/home/missing'')"
    using re_match_file_path [of "js ''/home/missing''"] by (auto simp: line_terminator_def)
  show "getPackageName \<lparr>tmp_dir = t, unpack = u, manifest_name = (\<lambda>_. Inl message)\<rparr>
       (js ''file:/home/missing'')
     = Inl (Failure message)"
    using a b m re_test_file [of "js ''file:/home/missing''"]
    by (simp add: getPackageName_def)
qed

text \<open>
  C5 says that on any failure of the pipeline after the manifest is written the rollback
  deletes \<open>package.json\<close> and \<open>node_modules\<close>. \<open>run\<close> calls \<open>getInstallPackage\<close> and
  \<open>getPackageName\<close> outside the promise chain. On each of the three arguments above the
  exception leaves \<open>run\<close> uncaught, the callback of \<open>.catch\<close> never runs, and the process
  ends with the disk as it was, \<open>package.json\<close> included. In the archive branch the same
  failure of \<open>require\<close> is inside the chain and does reach the rollback.
\<close>

theorem run_throw_skips_rollback:
  "run semver_valid env sys root appName (Some (js ''file:'')) verbose originalDirectory d
     = Threw TypeError [] d
   \<and> run semver_valid env sys root appName (Some (js ''git+https://host/repo'')) verbose
         originalDirectory d
     = Threw TypeError [js ''Installing packages. This might take a couple of minutes.''] d
   \<and> run semver_valid \<lparr>tmp_dir = t, unpack = u, manifest_name = (\<lambda>_. Inl message)\<rparr> sys root
         appName (Some (js ''file:../missing'')) verbose (js ''/home/u'') d
     = Threw (Failure message) [js ''Installing packages. This might take a couple of minutes.''] d"
  by (simp only: run_def resolve_file_empty git_without_suffix local_without_manifest
        sum.case Let_def simp_thms)

end
